theory Spec2Isabelle
  imports Main "HOL-Library.AList"
begin

section \<open>Python values and exceptions\<close>

text \<open>
  The module \<^verbatim>\<open>faulted_earth_fault.py\<close> is dynamically typed: an attribute mapping
  holds plain values, \<^verbatim>\<open>None\<close>, or \<^verbatim>\<open>Parameter\<close> objects side by side. The values
  the module handles are collected in one datatype.

  \<^item> \<open>PyDict\<close> is a dictionary with string keys, in insertion order.
  \<^item> \<open>PyPoint\<close> and \<open>PyLine\<close> are objects of the geometry library
    (\<^verbatim>\<open>openquake.hazardlib.geo\<close>), which the module only stores and tests with
    \<^verbatim>\<open>isinstance\<close>; they are known by their identity alone.
  \<^item> \<open>PyObject c attrs\<close> is an instance of the class named \<open>c\<close> of this module,
    with its attributes in the order in which they were assigned.

  Numbers are Python's unbounded integers and booleans. Floating-point numbers are not
  part of this value universe, so the test \<^verbatim>\<open>isinstance(self.scale, float)\<close> of
  \<^verbatim>\<open>BaseObservation.__init__\<close> has no value to succeed on here.
\<close>

datatype pyval =
    PyNone
  | PyBool bool
  | PyInt int
  | PyStr string
  | PyTuple "pyval list"
  | PyList "pyval list"
  | PyDict "(string \<times> pyval) list"
  | PyPoint nat
  | PyLine nat
  | PyObject string "(string \<times> pyval) list"

text \<open>
  The exceptions the module can raise. \<open>ValueError\<close> carries the message the source
  gives it, \<open>KeyError\<close> the missing key, \<open>NameError\<close> the unbound name,
  \<open>AttributeError\<close> the missing attribute.
\<close>

datatype pyerr =
    ValueError string
  | TypeError
  | AssertionError
  | KeyError string
  | NameError string
  | AttributeError string

section \<open>The Python operations the module uses\<close>

text \<open>Sequencing: the first exception ends the computation.\<close>

definition bind_err :: "pyerr + 'a \<Rightarrow> ('a \<Rightarrow> pyerr + 'b) \<Rightarrow> pyerr + 'b" where
  "bind_err m f = (case m of Inl e \<Rightarrow> Inl e | Inr v \<Rightarrow> f v)"

text \<open>
  The body of an \<^verbatim>\<open>__init__\<close> is a list of statements, each taking the object under
  construction and returning it updated, or raising.
\<close>

fun run_steps :: "(pyval \<Rightarrow> pyerr + pyval) list \<Rightarrow> pyval \<Rightarrow> pyerr + pyval" where
  "run_steps [] self = Inr self"
| "run_steps (s # ss) self = bind_err (s self) (run_steps ss)"

text \<open>Truth value testing, as \<^verbatim>\<open>if x:\<close> and \<^verbatim>\<open>and\<close> do it.\<close>

fun truthy :: "pyval \<Rightarrow> bool" where
  "truthy PyNone = False"
| "truthy (PyBool b) = b"
| "truthy (PyInt i) = (i \<noteq> 0)"
| "truthy (PyStr s) = (s \<noteq> [])"
| "truthy (PyTuple vs) = (vs \<noteq> [])"
| "truthy (PyList vs) = (vs \<noteq> [])"
| "truthy (PyDict kvs) = (kvs \<noteq> [])"
| "truthy (PyPoint a) = True"
| "truthy (PyLine a) = True"
| "truthy (PyObject c attrs) = True"

text \<open>
  \<^verbatim>\<open>a and b\<close>: \<open>b\<close> is evaluated only when \<open>a\<close> is true, and an exception of
  \<open>a\<close> is the exception of the whole.
\<close>

definition py_and :: "pyerr + pyval \<Rightarrow> pyerr + pyval \<Rightarrow> pyerr + pyval" where
  "py_and a b = bind_err a (\<lambda>x. if truthy x then b else Inr x)"

text \<open>
  \<^verbatim>\<open>f(args)\<close>: none of the values above is callable (the module's classes define no
  \<^verbatim>\<open>__call__\<close>, and a tuple has none), so the call raises \<^verbatim>\<open>TypeError\<close>.
\<close>

definition py_call :: "pyval \<Rightarrow> pyval list \<Rightarrow> pyerr + pyval" where
  "py_call f args = Inl TypeError"

text \<open>
  \<^verbatim>\<open>a > b\<close> on numbers (a boolean counts as 0 or 1). Python 3 raises
  \<^verbatim>\<open>TypeError\<close> for operands it cannot order; the orderings of strings and
  sequences are not modelled and are reported as \<^verbatim>\<open>TypeError\<close> too.
\<close>

fun py_num :: "pyval \<Rightarrow> int option" where
  "py_num (PyInt i) = Some i"
| "py_num (PyBool b) = Some (if b then 1 else 0)"
| "py_num _ = None"

definition py_gt :: "pyval \<Rightarrow> pyval \<Rightarrow> pyerr + pyval" where
  "py_gt a b =
     (case (py_num a, py_num b) of
        (Some x, Some y) \<Rightarrow> Inr (PyBool (x > y))
      | _ \<Rightarrow> Inl TypeError)"

text \<open>\<^verbatim>\<open>range(a, b)\<close> on integers.\<close>

definition py_range :: "int \<Rightarrow> int \<Rightarrow> int list" where
  "py_range a b = [a..b - 1]"

text \<open>\<^verbatim>\<open>isinstance\<close> against the classes the module tests for.\<close>

fun isinstance_tuple :: "pyval \<Rightarrow> bool" where
  "isinstance_tuple (PyTuple vs) = True"
| "isinstance_tuple _ = False"

fun isinstance_int :: "pyval \<Rightarrow> bool" where
  "isinstance_int (PyInt i) = True"
| "isinstance_int (PyBool b) = True"
| "isinstance_int _ = False"

fun isinstance_Point :: "pyval \<Rightarrow> bool" where
  "isinstance_Point (PyPoint a) = True"
| "isinstance_Point _ = False"

fun isinstance_Line :: "pyval \<Rightarrow> bool" where
  "isinstance_Line (PyLine a) = True"
| "isinstance_Line _ = False"

fun isinstance_Parameter :: "pyval \<Rightarrow> bool" where
  "isinstance_Parameter (PyObject c attrs) = (c = ''Parameter'')"
| "isinstance_Parameter _ = False"

text \<open>\<^verbatim>\<open>len\<close> of a tuple.\<close>

definition py_len :: "pyval list \<Rightarrow> int" where
  "py_len vs = int (length vs)"

text \<open>
  No value of \<open>pyval\<close> is a floating-point number (see above), so the test against
  \<^verbatim>\<open>float\<close> fails on all of them.
\<close>

fun isinstance_float :: "pyval \<Rightarrow> bool" where
  "isinstance_float _ = False"

text \<open>
  \<^verbatim>\<open>attributes['Key']\<close>: a dictionary without the key raises \<^verbatim>\<open>KeyError\<close>; any
  other value indexed by a string raises \<^verbatim>\<open>TypeError\<close>.
\<close>

fun py_getitem :: "pyval \<Rightarrow> string \<Rightarrow> pyerr + pyval" where
  "py_getitem (PyDict kvs) k = (case map_of kvs k of Some v \<Rightarrow> Inr v | None \<Rightarrow> Inl (KeyError k))"
| "py_getitem _ k = Inl TypeError"

text \<open>Reading and writing an attribute of an object of this module.\<close>

fun py_getattr :: "pyval \<Rightarrow> string \<Rightarrow> pyerr + pyval" where
  "py_getattr (PyObject c attrs) name =
     (case map_of attrs name of Some v \<Rightarrow> Inr v | None \<Rightarrow> Inl (AttributeError name))"
| "py_getattr _ name = Inl (AttributeError name)"

fun py_setattr :: "pyval \<Rightarrow> string \<Rightarrow> pyval \<Rightarrow> pyerr + pyval" where
  "py_setattr (PyObject c attrs) name v = Inr (PyObject c (AList.update name v attrs))"
| "py_setattr _ name v = Inl (AttributeError name)"

text \<open>
  The statement \<^verbatim>\<open>self.name = rhs\<close>: the right-hand side is evaluated first and may
  raise.
\<close>

definition assign :: "string \<Rightarrow> pyerr + pyval \<Rightarrow> pyval \<Rightarrow> pyerr + pyval" where
  "assign name rhs self = bind_err rhs (py_setattr self name)"

text \<open>The statement \<^verbatim>\<open>assert c\<close>.\<close>

definition py_assert :: "bool \<Rightarrow> pyval \<Rightarrow> pyerr + pyval" where
  "py_assert c self = (if c then Inr self else Inl AssertionError)"

text \<open>
  Reading a name that is bound neither in the enclosing function, nor at module level,
  nor as a builtin raises \<^verbatim>\<open>NameError\<close>.
\<close>

definition unbound_name :: "string \<Rightarrow> pyerr + pyval" where
  "unbound_name name = Inl (NameError name)"

text \<open>
  \<^verbatim>\<open>2 * x\<close>: a number is doubled, a string or a sequence is repeated twice, anything
  else raises \<^verbatim>\<open>TypeError\<close>.
\<close>

fun py_twice :: "pyval \<Rightarrow> pyerr + pyval" where
  "py_twice (PyInt i) = Inr (PyInt (2 * i))"
| "py_twice (PyBool b) = Inr (PyInt (2 * (if b then 1 else 0)))"
| "py_twice (PyStr s) = Inr (PyStr (s @ s))"
| "py_twice (PyTuple vs) = Inr (PyTuple (vs @ vs))"
| "py_twice (PyList vs) = Inr (PyList (vs @ vs))"
| "py_twice _ = Inl TypeError"

text \<open>An attribute of the object a construction returns.\<close>

definition result_attr :: "pyerr + pyval \<Rightarrow> string \<Rightarrow> pyerr + pyval" where
  "result_attr r name = bind_err r (\<lambda>obj. py_getattr obj name)"

section \<open>\<^verbatim>\<open>build_pref_min_max\<close>\<close>

text \<open>
  Lines 13 to 33. In the tuple branch the consistency check reads
  \<^verbatim>\<open>(nval > 2) and value(1) and value(2) and (value(1) > value(2))\<close>: the elements
  are reached for with call parentheses, \<^verbatim>\<open>value(1)\<close>, not with an index.
\<close>

definition build_pref_min_max :: "pyval \<Rightarrow> int \<Rightarrow> pyerr + pyval" where
  "build_pref_min_max value nval =
     (case value of
        PyTuple vs \<Rightarrow>
          if py_len vs \<noteq> nval
          then Inl (ValueError ''Preferred-Min-Max must be a tuple of length 3!'')
          else
            bind_err
              (py_and (Inr (PyBool (nval > 2)))
                (py_and (py_call value [PyInt 1])
                  (py_and (py_call value [PyInt 2])
                    (bind_err (py_call value [PyInt 1]) (\<lambda>a.
                     bind_err (py_call value [PyInt 2]) (\<lambda>b. py_gt a b))))))
              (\<lambda>c. if truthy c
                   then Inl (ValueError ''Minimum value in tuple is greater than maximum!'')
                   else Inr value)
      | _ \<Rightarrow> Inr (PyTuple (value # map (\<lambda>val. PyNone) (py_range 0 (nval - 1)))))"

section \<open>\<^verbatim>\<open>Parameter\<close> and \<^verbatim>\<open>_assert_assign\<close>\<close>

text \<open>
  Lines 49 to 57: the constructor stores its five arguments and sets \<^verbatim>\<open>comment\<close>
  to \<^verbatim>\<open>None\<close>. An argument left out by the caller is \<^verbatim>\<open>None\<close>. Nothing is
  compared and nothing is checked.
\<close>

definition Parameter_init ::
  "pyval \<Rightarrow> pyval \<Rightarrow> pyval \<Rightarrow> pyval \<Rightarrow> pyval \<Rightarrow> pyval \<Rightarrow> pyerr + pyval" where
  "Parameter_init value minimum maximum completeness distribution =
     run_steps
       [assign ''value'' (Inr value),
        assign ''minimum'' (Inr minimum),
        assign ''maximum'' (Inr maximum),
        assign ''completeness'' (Inr completeness),
        assign ''distribution'' (Inr distribution),
        assign ''comment'' (Inr PyNone)]"

definition Parameter :: "pyval \<Rightarrow> pyval \<Rightarrow> pyval \<Rightarrow> pyval \<Rightarrow> pyval \<Rightarrow> pyerr + pyval" where
  "Parameter value minimum maximum completeness distribution =
     Parameter_init value minimum maximum completeness distribution (PyObject ''Parameter'' [])"

text \<open>Lines 60 to 66.\<close>

definition assert_assign :: "pyval \<Rightarrow> pyerr + pyval" where
  "assert_assign value = (if isinstance_Parameter value then Inr value else Inl AssertionError)"

section \<open>Point observations\<close>

text \<open>
  Lines 87 to 114. The second parameter of \<^verbatim>\<open>BaseObservation.__init__\<close> is spelled
  \<^verbatim>\<open>identifer\<close>, and the first statement reads \<^verbatim>\<open>identifier\<close>, a name that nothing
  in the function or the module binds.
\<close>

definition BaseObservation_init :: "pyval \<Rightarrow> pyval \<Rightarrow> pyval \<Rightarrow> pyval \<Rightarrow> pyerr + pyval" where
  "BaseObservation_init identifer location attributes =
     run_steps
       [assign ''id'' (unbound_name ''identifier''),
        py_assert (isinstance_Point location),
        assign ''location'' (Inr location),
        assign ''scale'' (py_getitem attributes ''Scale''),
        (\<lambda>self.
           bind_err (py_getitem attributes ''Accuracy'') (\<lambda>a.
           if truthy a then assign ''accuracy'' (py_getitem attributes ''Accuracy'') self
           else
             bind_err (py_getattr self ''scale'') (\<lambda>scale.
             if isinstance_int scale \<or> isinstance_float scale
             then assign ''accuracy'' (py_twice scale) self
             else assign ''accuracy'' (Inr PyNone) self))),
        assign ''notes'' (py_getitem attributes ''Notes''),
        assign ''fault_section'' (py_getitem attributes ''Fault Section''),
        assign ''site_feature'' (py_getitem attributes ''Site Feature'')]"

definition BaseObservation :: "pyval \<Rightarrow> pyval \<Rightarrow> pyval \<Rightarrow> pyerr + pyval" where
  "BaseObservation identifier location attributes =
     BaseObservation_init identifier location attributes (PyObject ''BaseObservation'' [])"

text \<open>Lines 122 to 132.\<close>

definition ObservationDisplacement_init ::
  "pyval \<Rightarrow> pyval \<Rightarrow> pyval \<Rightarrow> pyval \<Rightarrow> pyerr + pyval" where
  "ObservationDisplacement_init identifier location attributes =
     run_steps
       [BaseObservation_init identifier location attributes,
        assign ''total_disp'' (py_getitem attributes ''Total Displacement''),
        assign ''category'' (py_getitem attributes ''Category''),
        assign ''horizontal_disp'' (py_getitem attributes ''Horizontal''),
        assign ''vertical_disp'' (py_getitem attributes ''Vertical''),
        assign ''net_disp'' (py_getitem attributes ''Net''),
        assign ''displacement'' (bind_err (py_getitem attributes ''Displacement'') assert_assign)]"

definition ObservationDisplacement :: "pyval \<Rightarrow> pyval \<Rightarrow> pyval \<Rightarrow> pyerr + pyval" where
  "ObservationDisplacement identifier location attributes =
     ObservationDisplacement_init identifier location attributes
       (PyObject ''ObservationDisplacement'' [])"

text \<open>Lines 139 to 150.\<close>

definition ObservationEvent_init ::
  "pyval \<Rightarrow> pyval \<Rightarrow> pyval \<Rightarrow> pyval \<Rightarrow> pyerr + pyval" where
  "ObservationEvent_init identifier location attributes =
     run_steps
       [BaseObservation_init identifier location attributes,
        assign ''recurrence''
          (bind_err (py_getitem attributes ''Recurrence Interval'') assert_assign),
        assign ''recurrence_category'' (py_getitem attributes ''Recurrence Category''),
        assign ''movement'' (bind_err (py_getitem attributes ''Movement'') assert_assign),
        assign ''movement_category'' (py_getitem attributes ''Movement Category''),
        assign ''historic_event'' (py_getitem attributes ''Historic Event''),
        assign ''prehistoric_event'' (py_getitem attributes ''Prehistoric Event''),
        assign ''marker_age'' (py_getitem attributes ''Marker Age'')]"

definition ObservationEvent :: "pyval \<Rightarrow> pyval \<Rightarrow> pyval \<Rightarrow> pyerr + pyval" where
  "ObservationEvent identifier location attributes =
     ObservationEvent_init identifier location attributes (PyObject ''ObservationEvent'' [])"

text \<open>Lines 157 to 165.\<close>

definition ObservationGeometry_init ::
  "pyval \<Rightarrow> pyval \<Rightarrow> pyval \<Rightarrow> pyval \<Rightarrow> pyerr + pyval" where
  "ObservationGeometry_init identifier location attributes =
     run_steps
       [BaseObservation_init identifier location attributes,
        assign ''dip_dir'' (py_getitem attributes ''Dip Direction''),
        assign ''down_side'' (py_getitem attributes ''Downthrown Side''),
        assign ''strike'' (py_getitem attributes ''Strike''),
        assign ''dip'' (py_getitem attributes ''Dip'')]"

definition ObservationGeometry :: "pyval \<Rightarrow> pyval \<Rightarrow> pyval \<Rightarrow> pyerr + pyval" where
  "ObservationGeometry identifier location attributes =
     ObservationGeometry_init identifier location attributes
       (PyObject ''ObservationGeometry'' [])"

text \<open>Lines 172 to 185.\<close>

definition ObservationSlipRate_init ::
  "pyval \<Rightarrow> pyval \<Rightarrow> pyval \<Rightarrow> pyval \<Rightarrow> pyerr + pyval" where
  "ObservationSlipRate_init identifier location attributes =
     run_steps
       [BaseObservation_init identifier location attributes,
        assign ''dip_slip'' (bind_err (py_getitem attributes ''Dip Slip'') assert_assign),
        assign ''strike_slip'' (bind_err (py_getitem attributes ''Strike-Slip'') assert_assign),
        assign ''vertical_slip'' (bind_err (py_getitem attributes ''Vertical'') assert_assign),
        assign ''net_slip'' (bind_err (py_getitem attributes ''Net Slip'') assert_assign),
        assign ''hv_ratio'' (bind_err (py_getitem attributes ''HV Ratio'') assert_assign),
        assign ''rake'' (bind_err (py_getitem attributes ''Rake'') assert_assign),
        assign ''slip_category'' (py_getitem attributes ''Slip Category''),
        assign ''slip_type'' (bind_err (py_getitem attributes ''Slip Type'') assert_assign),
        assign ''aseismic'' (bind_err (py_getitem attributes ''Aseismic'') assert_assign)]"

definition ObservationSlipRate :: "pyval \<Rightarrow> pyval \<Rightarrow> pyval \<Rightarrow> pyerr + pyval" where
  "ObservationSlipRate identifier location attributes =
     ObservationSlipRate_init identifier location attributes
       (PyObject ''ObservationSlipRate'' [])"

section \<open>\<^verbatim>\<open>FaultTrace\<close>\<close>

text \<open>
  Lines 192 to 203. \<^verbatim>\<open>FaultTrace\<close> does not derive from \<^verbatim>\<open>BaseObservation\<close>; it
  reads its six keys itself, \<^verbatim>\<open>Accuracy\<close> among them.
\<close>

definition FaultTrace_init :: "pyval \<Rightarrow> pyval \<Rightarrow> pyval \<Rightarrow> pyval \<Rightarrow> pyerr + pyval" where
  "FaultTrace_init identifier geometry attributes =
     run_steps
       [assign ''id'' (Inr identifier),
        py_assert (isinstance_Line geometry),
        assign ''geometry'' (Inr geometry),
        assign ''scale'' (py_getitem attributes ''Scale''),
        assign ''accuracy'' (py_getitem attributes ''Accuracy''),
        assign ''notes'' (py_getitem attributes ''Notes''),
        assign ''name'' (py_getitem attributes ''Name''),
        assign ''method'' (py_getitem attributes ''Location Method''),
        assign ''expression'' (py_getitem attributes ''Geomorphic Expression'')]"

definition FaultTrace :: "pyval \<Rightarrow> pyval \<Rightarrow> pyval \<Rightarrow> pyerr + pyval" where
  "FaultTrace identifier geometry attributes =
     FaultTrace_init identifier geometry attributes (PyObject ''FaultTrace'' [])"

section \<open>\<^verbatim>\<open>BaseFault\<close>, \<^verbatim>\<open>NeotectonicSection\<close> and \<^verbatim>\<open>NeotectonicFault\<close>\<close>

text \<open>
  Lines 227 to 264. \<^verbatim>\<open>BaseFault.__init__\<close> is declared with the three parameters
  \<^verbatim>\<open>(identifier, name, attributes)\<close> and no \<^verbatim>\<open>self\<close>, while every statement of its
  body assigns to \<^verbatim>\<open>self\<close>. So the body starts by looking up a name that is not bound.
\<close>

definition BaseFault_init :: "pyval \<Rightarrow> pyval \<Rightarrow> pyval \<Rightarrow> pyerr + pyval" where
  "BaseFault_init identifier name attributes =
     bind_err (unbound_name ''self'')
       (run_steps
         [assign ''id'' (Inr identifier),
          assign ''name'' (Inr name),
          assign ''geometry'' (Inr PyNone),
          assign ''length'' (Inr PyNone),
          assign ''is_episodic'' (py_getitem attributes ''Episodic''),
          assign ''strike'' (py_getitem attributes ''Strike''),
          assign ''surface_dip'' (py_getitem attributes ''Surface Dip''),
          assign ''downside'' (py_getitem attributes ''Downthrown Side''),
          assign ''upper_seismogenic_depth''
            (bind_err (py_getitem attributes ''Upper Depth'') assert_assign),
          assign ''lower_seismogenic_depth''
            (bind_err (py_getitem attributes ''Lower Depth'') assert_assign),
          assign ''dip'' (bind_err (py_getitem attributes ''Dip'') assert_assign),
          assign ''dip_direction''
            (bind_err (py_getitem attributes ''Dip Direction'') assert_assign),
          assign ''dip_slip'' (bind_err (py_getitem attributes ''Dip Slip'') assert_assign),
          assign ''strike_slip'' (bind_err (py_getitem attributes ''Strike Slip'') assert_assign),
          assign ''vertical_slip''
            (bind_err (py_getitem attributes ''Vertical Slip'') assert_assign),
          assign ''aspect'' (bind_err (py_getitem attributes ''HV Ratio'') assert_assign),
          assign ''slip'' (bind_err (py_getitem attributes ''Net Slip'') assert_assign),
          assign ''slip_category'' (py_getitem attributes ''Slip Category''),
          assign ''rake'' (bind_err (py_getitem attributes ''Rake'') assert_assign),
          assign ''slip_type'' (bind_err (py_getitem attributes ''Slip Type'') assert_assign),
          assign ''aseismic'' (bind_err (py_getitem attributes ''Aseismic'') assert_assign),
          assign ''displacement'' (py_getitem attributes ''Displacement''),
          assign ''recurrence'' (bind_err (py_getitem attributes ''Recurrence'') assert_assign),
          assign ''movement'' (bind_err (py_getitem attributes ''Movement'') assert_assign),
          assign ''historic'' (py_getitem attributes ''Historical Event''),
          assign ''prehistoric'' (py_getitem attributes ''Pre-historic''),
          assign ''compiler'' (Inr PyNone),
          assign ''contributor'' (Inr PyNone),
          assign ''created'' (Inr PyNone),
          assign ''comment'' (Inr PyNone)])"

text \<open>
  The call \<^verbatim>\<open>BaseFault(a1, ..., an)\<close> creates the instance and passes it to
  \<^verbatim>\<open>__init__\<close> in front of the arguments. As \<^verbatim>\<open>__init__\<close> has three parameters, the
  call needs \<open>n = 2\<close>; the new instance is then bound to \<^verbatim>\<open>identifier\<close>. Any other
  number of arguments raises \<^verbatim>\<open>TypeError\<close>.
\<close>

definition BaseFault :: "pyval list \<Rightarrow> pyerr + pyval" where
  "BaseFault args =
     (case PyObject ''BaseFault'' [] # args of
        [identifier, name, attributes] \<Rightarrow>
          bind_err (BaseFault_init identifier name attributes) (\<lambda>r. Inr identifier)
      | _ \<Rightarrow> Inl TypeError)"

text \<open>
  Lines 267 to 283 and 312 to 326. Both are introduced with \<^verbatim>\<open>def\<close>, not with
  \<^verbatim>\<open>class\<close>: \<^verbatim>\<open>def NeotectonicSection(BaseFault):\<close> is a function of one parameter
  named \<^verbatim>\<open>BaseFault\<close>, and \<^verbatim>\<open>def NeotectonicFault(object):\<close> a function of one
  parameter named \<^verbatim>\<open>object\<close>. The body of each defines a local function
  \<^verbatim>\<open>__init__\<close>, which nothing calls, and ends; the function returns \<^verbatim>\<open>None\<close>.
  A call is given by its positional and its keyword arguments.
\<close>

fun NeotectonicSection :: "pyval list \<Rightarrow> (string \<times> pyval) list \<Rightarrow> pyerr + pyval" where
  "NeotectonicSection [x] [] = Inr PyNone"
| "NeotectonicSection [] [(k, x)] = (if k = ''BaseFault'' then Inr PyNone else Inl TypeError)"
| "NeotectonicSection args kwargs = Inl TypeError"

fun NeotectonicFault :: "pyval list \<Rightarrow> (string \<times> pyval) list \<Rightarrow> pyerr + pyval" where
  "NeotectonicFault [x] [] = Inr PyNone"
| "NeotectonicFault [] [(k, x)] = (if k = ''object'' then Inr PyNone else Inl TypeError)"
| "NeotectonicFault args kwargs = Inl TypeError"

section \<open>The specification's names\<close>

text \<open>
  The specification names the failures by kind; the source raises Python's built-in
  exceptions. \<open>ShapeError\<close> and \<open>RangeError\<close> are the two \<^verbatim>\<open>ValueError\<close>s of
  \<^verbatim>\<open>build_pref_min_max\<close>.
\<close>

definition ShapeError :: pyerr where
  "ShapeError = ValueError ''Preferred-Min-Max must be a tuple of length 3!''"

definition RangeError :: pyerr where
  "RangeError = ValueError ''Minimum value in tuple is greater than maximum!''"

text \<open>
  \<open>TypeConstraintError\<close> is the failed assertion of \<^verbatim>\<open>_assert_assign\<close>, and
  \<open>MissingFieldError\<close> the \<^verbatim>\<open>KeyError\<close> of a dictionary lookup.
\<close>

definition TypeConstraintError :: pyerr where
  "TypeConstraintError = AssertionError"

definition MissingFieldError :: "string \<Rightarrow> pyerr" where
  "MissingFieldError key = KeyError key"

text \<open>
  The accuracy rule in the specification's words (section 4.3): the supplied
  \<^verbatim>\<open>Accuracy\<close> when it is present and not null; else twice the \<^verbatim>\<open>Scale\<close> when
  that is a number; else null.
\<close>

definition spec_default_accuracy :: "(string \<times> pyval) list \<Rightarrow> pyval" where
  "spec_default_accuracy kvs =
     (case map_of kvs ''Scale'' of
        Some (PyInt scale) \<Rightarrow> PyInt (2 * scale)
      | _ \<Rightarrow> PyNone)"

definition spec_accuracy :: "pyval \<Rightarrow> pyval" where
  "spec_accuracy attributes =
     (case attributes of
        PyDict kvs \<Rightarrow>
          (case map_of kvs ''Accuracy'' of
             Some a \<Rightarrow> if a = PyNone then spec_default_accuracy kvs else a
           | None \<Rightarrow> spec_default_accuracy kvs)
      | _ \<Rightarrow> PyNone)"

text \<open>
  The invariant of an uncertain value in the specification's words (section 3): if
  both bounds are present, the minimum is at most the maximum. \<open>bounds_ordered\<close> is
  the condition on two bounds, \<open>spec_invariant\<close> the condition on an object.
\<close>

definition bounds_ordered :: "pyval \<Rightarrow> pyval \<Rightarrow> bool" where
  "bounds_ordered minimum maximum =
     (case (py_num minimum, py_num maximum) of
        (Some mn, Some mx) \<Rightarrow> mn \<le> mx
      | _ \<Rightarrow> True)"

definition spec_invariant :: "pyval \<Rightarrow> bool" where
  "spec_invariant p =
     (case (py_getattr p ''minimum'', py_getattr p ''maximum'') of
        (Inr minimum, Inr maximum) \<Rightarrow> bounds_ordered minimum maximum
      | _ \<Rightarrow> True)"

section \<open>Properties of \<^verbatim>\<open>build_pref_min_max\<close>\<close>

lemma length_py_range: "length (py_range 0 (n - 1)) = nat (n - 1)"
  by (simp add: py_range_def)

lemma map_const_py_range:
  "map (\<lambda>val. PyNone) (py_range 0 (n - 1)) = replicate (nat (n - 1)) PyNone"
  by (simp add: map_replicate_const length_py_range)

text \<open>
  A tuple of the expected length comes back unchanged only for an arity of at most 2;
  for a larger arity the range check calls the tuple and raises \<^verbatim>\<open>TypeError\<close>.
\<close>

lemma build_pref_min_max_tuple:
  "int (length vs) = n \<Longrightarrow>
     build_pref_min_max (PyTuple vs) n = (if 2 < n then Inl TypeError else Inr (PyTuple vs))"
  by (simp add: build_pref_min_max_def py_len_def py_and_def bind_err_def py_call_def)

text \<open>
  C3. A value that is not a tuple is wrapped: for every arity \<open>n \<ge> 1\<close> the result is a
  tuple of length exactly \<open>n\<close>, its first element the value itself and the other
  \<open>n - 1\<close> elements \<^verbatim>\<open>None\<close>; nothing is raised on this path.
\<close>

theorem build_pref_min_max_scalar:
  assumes "\<not> isinstance_tuple v" and "1 \<le> n"
  shows "\<exists>ws. build_pref_min_max v n = Inr (PyTuple ws)
           \<and> int (length ws) = n
           \<and> ws ! 0 = v
           \<and> ws = v # replicate (nat (n - 1)) PyNone"
proof -
  from assms(1) have "build_pref_min_max v n
      = Inr (PyTuple (v # map (\<lambda>val. PyNone) (py_range 0 (n - 1))))"
    by (cases v) (simp_all add: build_pref_min_max_def)
  then have "build_pref_min_max v n = Inr (PyTuple (v # replicate (nat (n - 1)) PyNone))"
    by (simp only: map_const_py_range)
  moreover from assms(2) have "int (length (v # replicate (nat (n - 1)) PyNone)) = n"
    by simp
  ultimately show ?thesis by simp
qed

theorem build_pref_min_max_scalar_witness:
  "\<not> isinstance_tuple PyNone \<and> (1::int) \<le> 3
     \<and> build_pref_min_max PyNone 3 = Inr (PyTuple [PyNone, PyNone, PyNone])"
  using build_pref_min_max_scalar [of PyNone 3] by (simp add: eval_nat_numeral)

text \<open>
  C9. A tuple whose length differs from the expected arity is refused with the
  length error, whatever it holds: the length test comes before the range check.
\<close>

theorem build_pref_min_max_wrong_length:
  assumes "int (length vs) \<noteq> n"
  shows "build_pref_min_max (PyTuple vs) n = Inl ShapeError"
  using assms by (simp add: build_pref_min_max_def py_len_def ShapeError_def)

theorem build_pref_min_max_wrong_length_witness:
  "int (length [PyInt 9, PyInt 1]) \<noteq> 3
     \<and> build_pref_min_max (PyTuple [PyInt 9, PyInt 1]) 3 = Inl ShapeError"
  using build_pref_min_max_wrong_length [of "[PyInt 9, PyInt 1]" 3] by simp

text \<open>
  C1. With the arity 3 a triple never comes back: the range check calls the tuple,
  which raises \<^verbatim>\<open>TypeError\<close>, for ordered bounds, for reversed bounds and for
  absent bounds alike. The triple with ordered bounds is not returned, and the triple
  with reversed bounds does not get the range error.
\<close>

theorem build_pref_min_max_triple_TypeError:
  "build_pref_min_max (PyTuple [PyInt 5, PyInt 1, PyInt 9]) 3 = Inl TypeError
   \<and> build_pref_min_max (PyTuple [PyInt 5, PyInt 9, PyInt 1]) 3 = Inl TypeError
   \<and> build_pref_min_max (PyTuple [PyInt 5, PyNone, PyNone]) 3 = Inl TypeError
   \<and> Inl TypeError \<noteq> (Inl RangeError :: pyerr + pyval)"
  by (simp add: build_pref_min_max_def py_len_def py_and_def bind_err_def py_call_def
        RangeError_def)

section \<open>Properties of \<^verbatim>\<open>Parameter\<close> and \<^verbatim>\<open>_assert_assign\<close>\<close>

text \<open>
  \<^verbatim>\<open>_assert_assign\<close> returns a \<^verbatim>\<open>Parameter\<close> unchanged and fails the assertion on
  anything else.
\<close>

lemma assert_assign_Inr_iff:
  "assert_assign v = Inr w \<longleftrightarrow> isinstance_Parameter v \<and> w = v"
  by (auto simp add: assert_assign_def)

lemma assert_assign_other:
  "\<not> isinstance_Parameter v \<Longrightarrow> assert_assign v = Inl TypeConstraintError"
  by (simp add: assert_assign_def TypeConstraintError_def)

text \<open>
  C8, as the code has it. Constructing a \<^verbatim>\<open>Parameter\<close> never fails and checks
  nothing: the object holds the value, the minimum, the maximum, the completeness and
  the distribution exactly as they were supplied, and \<^verbatim>\<open>None\<close> as its comment. So it
  satisfies the invariant exactly when the supplied bounds do.
\<close>

theorem Parameter_stores_arguments:
  "\<exists>p. Parameter v mn mx c d = Inr p
     \<and> p = PyObject ''Parameter''
          [(''value'', v), (''minimum'', mn), (''maximum'', mx), (''completeness'', c),
           (''distribution'', d), (''comment'', PyNone)]
     \<and> (spec_invariant p \<longleftrightarrow> bounds_ordered mn mx)"
  by (simp add: Parameter_def Parameter_init_def assign_def bind_err_def spec_invariant_def)

text \<open>
  C8, as the specification states it, fails: \<^verbatim>\<open>Parameter(1, 5, 2)\<close> is constructed
  with its minimum 5 above its maximum 2.
\<close>

theorem Parameter_reversed_bounds:
  "Parameter (PyInt 1) (PyInt 5) (PyInt 2) PyNone PyNone
     = Inr (PyObject ''Parameter''
          [(''value'', PyInt 1), (''minimum'', PyInt 5), (''maximum'', PyInt 2),
           (''completeness'', PyNone), (''distribution'', PyNone), (''comment'', PyNone)])
   \<and> \<not> spec_invariant (PyObject ''Parameter''
          [(''value'', PyInt 1), (''minimum'', PyInt 5), (''maximum'', PyInt 2),
           (''completeness'', PyNone), (''distribution'', PyNone), (''comment'', PyNone)])"
  by (simp add: Parameter_def Parameter_init_def assign_def bind_err_def spec_invariant_def
        bounds_ordered_def)

section \<open>Properties of the point observations\<close>

text \<open>
  The first statement of \<^verbatim>\<open>BaseObservation.__init__\<close> raises \<^verbatim>\<open>NameError\<close>, so the
  constructor raises it for every identifier, location and attribute mapping, before
  the location is tested and before any key is read.
\<close>

lemma BaseObservation_init_NameError:
  "BaseObservation_init identifier location attributes self = Inl (NameError ''identifier'')"
  by (simp add: BaseObservation_init_def assign_def unbound_name_def bind_err_def)

text \<open>
  C2. Every observation variant starts with the base constructor, so none can be
  constructed: with proper \<^verbatim>\<open>Parameter\<close> objects in all its envelope fields the
  construction raises \<^verbatim>\<open>NameError\<close> instead of succeeding, and with a plain value in
  such a field it raises \<^verbatim>\<open>NameError\<close> instead of failing the assertion of
  \<^verbatim>\<open>_assert_assign\<close>.
\<close>

theorem Observation_construction_NameError:
  "ObservationSlipRate identifier location attributes = Inl (NameError ''identifier'')
   \<and> ObservationEvent identifier location attributes = Inl (NameError ''identifier'')
   \<and> ObservationDisplacement identifier location attributes = Inl (NameError ''identifier'')
   \<and> ObservationGeometry identifier location attributes = Inl (NameError ''identifier'')
   \<and> Inl (NameError ''identifier'') \<noteq> (Inl TypeConstraintError :: pyerr + pyval)"
  by (simp add: ObservationSlipRate_def ObservationSlipRate_init_def
        ObservationEvent_def ObservationEvent_init_def
        ObservationDisplacement_def ObservationDisplacement_init_def
        ObservationGeometry_def ObservationGeometry_init_def
        BaseObservation_init_NameError bind_err_def TypeConstraintError_def)

text \<open>
  C5. An attribute mapping without the key \<^verbatim>\<open>Notes\<close> does not get the
  \<^verbatim>\<open>KeyError\<close> naming \<^verbatim>\<open>Notes\<close>: the \<^verbatim>\<open>NameError\<close> of the first statement comes
  before any key is read.
\<close>

theorem ObservationGeometry_missing_Notes_NameError:
  "ObservationGeometry (PyStr ''G1'') (PyPoint 0)
     (PyDict [(''Scale'', PyInt 25000), (''Accuracy'', PyNone), (''Fault Section'', PyNone),
              (''Site Feature'', PyNone), (''Dip Direction'', PyInt 180),
              (''Downthrown Side'', PyStr ''S''), (''Strike'', PyInt 90), (''Dip'', PyInt 45)])
     = Inl (NameError ''identifier'')
   \<and> Inl (NameError ''identifier'') \<noteq> (Inl (MissingFieldError ''Notes'') :: pyerr + pyval)"
  by (simp add: ObservationGeometry_def ObservationGeometry_init_def
        BaseObservation_init_NameError bind_err_def MissingFieldError_def)

text \<open>
  C10. A location that is not a \<^verbatim>\<open>Point\<close> does not get the failed assertion, and a
  location that is a \<^verbatim>\<open>Point\<close> is not stored: both constructions end with the
  \<^verbatim>\<open>NameError\<close> of the statement before the assertion.
\<close>

theorem BaseObservation_location_NameError:
  "BaseObservation (PyStr ''B1'') (PyStr ''here'')
     (PyDict [(''Scale'', PyInt 25000), (''Accuracy'', PyNone), (''Notes'', PyNone),
              (''Fault Section'', PyNone), (''Site Feature'', PyNone)])
     = Inl (NameError ''identifier'')
   \<and> BaseObservation (PyStr ''B1'') (PyPoint 0)
     (PyDict [(''Scale'', PyInt 25000), (''Accuracy'', PyNone), (''Notes'', PyNone),
              (''Fault Section'', PyNone), (''Site Feature'', PyNone)])
     = Inl (NameError ''identifier'')
   \<and> Inl (NameError ''identifier'') \<noteq> (Inl AssertionError :: pyerr + pyval)"
  by (simp add: BaseObservation_def BaseObservation_init_NameError)

section \<open>Properties of \<^verbatim>\<open>FaultTrace\<close>\<close>

text \<open>
  A trace is constructed from every line geometry and every mapping that holds the six
  keys the constructor reads, whatever their values.
\<close>

lemma FaultTrace_succeeds:
  assumes "isinstance_Line geometry"
    and "map_of kvs ''Scale'' = Some scale"
    and "map_of kvs ''Accuracy'' = Some accuracy"
    and "map_of kvs ''Notes'' = Some notes"
    and "map_of kvs ''Name'' = Some name"
    and "map_of kvs ''Location Method'' = Some method"
    and "map_of kvs ''Geomorphic Expression'' = Some expression"
  shows "FaultTrace identifier geometry (PyDict kvs)
     = Inr (PyObject ''FaultTrace''
         [(''id'', identifier), (''geometry'', geometry), (''scale'', scale),
          (''accuracy'', accuracy), (''notes'', notes), (''name'', name),
          (''method'', method), (''expression'', expression)])"
  using assms
  by (simp add: FaultTrace_def FaultTrace_init_def assign_def bind_err_def py_assert_def)

text \<open>
  C4, as the code has it for the fault trace. Whenever a trace is constructed, its
  accuracy is the value stored under \<^verbatim>\<open>Accuracy\<close> in the attribute mapping,
  unchanged, and its scale the value stored under \<^verbatim>\<open>Scale\<close>; the accuracy is not
  derived from the scale.
\<close>

theorem FaultTrace_accuracy_as_supplied:
  assumes "FaultTrace identifier geometry attributes = Inr t"
  shows "py_getattr t ''accuracy'' = py_getitem attributes ''Accuracy''
         \<and> py_getattr t ''scale'' = py_getitem attributes ''Scale''"
  using assms
  by (auto simp add: FaultTrace_def FaultTrace_init_def assign_def bind_err_def py_assert_def
        split: sum.splits if_splits)

theorem FaultTrace_accuracy_as_supplied_witness:
  "FaultTrace (PyStr ''T1'') (PyLine 0)
     (PyDict [(''Scale'', PyInt 25000), (''Accuracy'', PyInt 100), (''Notes'', PyNone),
              (''Name'', PyStr ''Trace 1''), (''Location Method'', PyStr ''GPS''),
              (''Geomorphic Expression'', PyStr ''scarp'')])
   = Inr (PyObject ''FaultTrace''
       [(''id'', PyStr ''T1''), (''geometry'', PyLine 0), (''scale'', PyInt 25000),
        (''accuracy'', PyInt 100), (''notes'', PyNone), (''name'', PyStr ''Trace 1''),
        (''method'', PyStr ''GPS''), (''expression'', PyStr ''scarp'')])
   \<and> py_getattr (PyObject ''FaultTrace''
       [(''id'', PyStr ''T1''), (''geometry'', PyLine 0), (''scale'', PyInt 25000),
        (''accuracy'', PyInt 100), (''notes'', PyNone), (''name'', PyStr ''Trace 1''),
        (''method'', PyStr ''GPS''), (''expression'', PyStr ''scarp'')]) ''accuracy''
     = Inr (PyInt 100)"
proof -
  have built: "FaultTrace (PyStr ''T1'') (PyLine 0)
     (PyDict [(''Scale'', PyInt 25000), (''Accuracy'', PyInt 100), (''Notes'', PyNone),
              (''Name'', PyStr ''Trace 1''), (''Location Method'', PyStr ''GPS''),
              (''Geomorphic Expression'', PyStr ''scarp'')])
   = Inr (PyObject ''FaultTrace''
       [(''id'', PyStr ''T1''), (''geometry'', PyLine 0), (''scale'', PyInt 25000),
        (''accuracy'', PyInt 100), (''notes'', PyNone), (''name'', PyStr ''Trace 1''),
        (''method'', PyStr ''GPS''), (''expression'', PyStr ''scarp'')])"
    by (simp add: FaultTrace_def FaultTrace_init_def assign_def bind_err_def py_assert_def)
  from FaultTrace_accuracy_as_supplied [OF built] built show ?thesis
    by simp
qed

text \<open>
  C4, as the specification states it, fails for the fault trace: with the scale 25000
  and a null accuracy the specification's rule gives 50000, and the trace that is
  constructed has the accuracy \<^verbatim>\<open>None\<close>.
\<close>

theorem FaultTrace_accuracy_not_derived:
  "result_attr
     (FaultTrace (PyStr ''T1'') (PyLine 0)
        (PyDict [(''Scale'', PyInt 25000), (''Accuracy'', PyNone), (''Notes'', PyNone),
                 (''Name'', PyStr ''Trace 1''), (''Location Method'', PyStr ''GPS''),
                 (''Geomorphic Expression'', PyStr ''scarp'')]))
     ''accuracy'' = Inr PyNone
   \<and> spec_accuracy
        (PyDict [(''Scale'', PyInt 25000), (''Accuracy'', PyNone), (''Notes'', PyNone),
                 (''Name'', PyStr ''Trace 1''), (''Location Method'', PyStr ''GPS''),
                 (''Geomorphic Expression'', PyStr ''scarp'')]) = PyInt 50000"
  by (simp add: FaultTrace_def FaultTrace_init_def assign_def bind_err_def py_assert_def
        result_attr_def spec_accuracy_def spec_default_accuracy_def)

section \<open>Properties of \<^verbatim>\<open>NeotectonicSection\<close> and \<^verbatim>\<open>NeotectonicFault\<close>\<close>

text \<open>
  Neither function ever returns an object: a call with one argument returns
  \<^verbatim>\<open>None\<close>, any other call raises \<^verbatim>\<open>TypeError\<close>.
\<close>

lemma NeotectonicSection_results:
  "NeotectonicSection args kwargs = Inl TypeError \<or> NeotectonicSection args kwargs = Inr PyNone"
  by (induction args kwargs rule: NeotectonicSection.induct) simp_all

lemma NeotectonicFault_results:
  "NeotectonicFault args kwargs = Inl TypeError \<or> NeotectonicFault args kwargs = Inr PyNone"
  by (induction args kwargs rule: NeotectonicFault.induct) simp_all

text \<open>
  C6. The scenario cannot be run. Were there three slip-rate observations
  \<open>o1\<close>, \<open>o2\<close>, \<open>o3\<close>, attaching them to a section with a trace geometry raises
  \<^verbatim>\<open>TypeError\<close>, with the observation list passed by position or by keyword; and
  building a fault from an identifier, a name and a list of one section raises
  \<^verbatim>\<open>TypeError\<close> as well. No fault exposing one section is returned.
\<close>

theorem scenario_section_and_fault_TypeError:
  "NeotectonicSection
     [PyStr ''S1'', PyStr ''Section 1'', attributes, PyLine 0, PyList [o1, o2, o3]] []
     = Inl TypeError
   \<and> NeotectonicSection [PyStr ''S1'', PyStr ''Section 1'', attributes]
        [(''geometry'', PyLine 0), (''slip_obs'', PyList [o1, o2, o3])] = Inl TypeError
   \<and> NeotectonicFault [PyStr ''F1'', PyStr ''Fault 1'', PyList [section]] [] = Inl TypeError"
  by simp

text \<open>
  C7. A fault cannot be constructed from an identifier, a name and a section
  sequence, with or without an attribute mapping: the call raises \<^verbatim>\<open>TypeError\<close>, and
  whatever the arguments the result is \<^verbatim>\<open>TypeError\<close> or \<^verbatim>\<open>None\<close>, never an object
  with summary data. The attribute bundle cannot be constructed either:
  \<^verbatim>\<open>BaseFault(identifier, name, attributes)\<close> raises \<^verbatim>\<open>TypeError\<close>, and with two
  arguments \<^verbatim>\<open>NameError\<close>.
\<close>

theorem NeotectonicFault_no_object:
  "NeotectonicFault [identifier, name, sections] [] = Inl TypeError
   \<and> NeotectonicFault [identifier, name, sections, attributes] [] = Inl TypeError
   \<and> NeotectonicFault [identifier, name, sections] [(''attributes'', attributes)]
       = Inl TypeError
   \<and> (NeotectonicFault args kwargs = Inl TypeError \<or> NeotectonicFault args kwargs = Inr PyNone)
   \<and> BaseFault [identifier, name, attributes] = Inl TypeError
   \<and> BaseFault [name, attributes] = Inl (NameError ''self'')"
  using NeotectonicFault_results [of args kwargs]
  by (simp add: BaseFault_def BaseFault_init_def unbound_name_def bind_err_def)

end
